theory Spec2Isabelle
  imports Complex_Main "HOL-Library.Sublist"
begin

section \<open>JavaScript values and asynchronous operations\<close>

text \<open>
  The data-access layer of \<^verbatim>\<open>src/lib/supabase.ts\<close> is typed with \<^verbatim>\<open>any\<close>: payloads,
  fallbacks and thrown values are arbitrary JavaScript values. The fragment of them that
  the code inspects is modelled by \<open>jsval\<close>. Numbers are the finite ones (rationals);
  \<^verbatim>\<open>NaN\<close> and the infinities are not represented. An object literal is an association list
  in which the first binding of a key is the one that is read.
\<close>

datatype jsval =
    JUndefined
  | JNull
  | JBool bool
  | JNum rat
  | JStr string
  | JError string string
  | JObj "(string \<times> jsval) list"

text \<open>Truthiness, as \<^verbatim>\<open>if (x)\<close> and \<^verbatim>\<open>x && y\<close> test it.\<close>

fun truthy :: "jsval \<Rightarrow> bool" where
  "truthy JUndefined = False"
| "truthy JNull = False"
| "truthy (JBool b) = b"
| "truthy (JNum n) = (n \<noteq> 0)"
| "truthy (JStr s) = (s \<noteq> [])"
| "truthy (JError name msg) = True"
| "truthy (JObj fields) = True"

text \<open>
  Reading a property \<^verbatim>\<open>v.k\<close>. On \<^verbatim>\<open>undefined\<close> and \<^verbatim>\<open>null\<close> the read throws a
  \<^verbatim>\<open>TypeError\<close> (\<open>Inl\<close>); on an object it yields the field or \<^verbatim>\<open>undefined\<close>; an error
  object has its \<^verbatim>\<open>name\<close> and \<^verbatim>\<open>message\<close>; the other primitives have none of the
  properties the code reads (\<^verbatim>\<open>error\<close>, \<^verbatim>\<open>data\<close>).
\<close>

fun getProp :: "jsval \<Rightarrow> string \<Rightarrow> jsval + jsval" where
  "getProp JUndefined k = Inl (JError ''TypeError'' ''Cannot read properties of undefined'')"
| "getProp JNull k = Inl (JError ''TypeError'' ''Cannot read properties of null'')"
| "getProp (JObj fields) k = Inr (case map_of fields k of None \<Rightarrow> JUndefined | Some v \<Rightarrow> v)"
| "getProp (JError name msg) k =
     Inr (if k = ''name'' then JStr name else if k = ''message'' then JStr msg else JUndefined)"
| "getProp (JBool b) k = Inr JUndefined"
| "getProp (JNum n) k = Inr JUndefined"
| "getProp (JStr s) k = Inr JUndefined"

text \<open>
  What one invocation of an asynchronous callback (\<^verbatim>\<open>() => Promise<any>\<close>) does:
  it throws synchronously, or it returns a promise that is fulfilled (\<open>Inr\<close>) or rejected
  (\<open>Inl\<close>) after some milliseconds, or a promise that stays pending for ever.
\<close>

datatype behaviour =
    Throws jsval
  | Settles nat "jsval + jsval"
  | Never

text \<open>A numeric parameter with a default value: \<open>None\<close> is the argument left out.\<close>

definition orDefault :: "'a option \<Rightarrow> 'a \<Rightarrow> 'a" where
  "orDefault arg d = (case arg of None \<Rightarrow> d | Some x \<Rightarrow> x)"

section \<open>The keyed TTL cache\<close>

text \<open>
  \<^verbatim>\<open>const cache = new Map()\<close> holds \<^verbatim>\<open>{ data, timestamp }\<close> under string keys. The
  module state carries, beside the map, the reading of \<^verbatim>\<open>Date.now()\<close> and the number of
  times a fetcher has been invoked. The fetcher is external to the module: it does not
  touch the map, and calls are sequential (no second call starts while one is awaiting).
\<close>

record cache_entry =
  data :: jsval
  timestamp :: int

record cache_state =
  cache :: "string \<rightharpoonup> cache_entry"
  now :: int
  invocations :: nat

text \<open>The \<^verbatim>\<open>catch\<close> block of \<^verbatim>\<open>fetchWithCache\<close>: the stale entry, or the error again.\<close>

definition cacheFallback ::
  "cache_entry option \<Rightarrow> jsval \<Rightarrow> cache_state \<Rightarrow> ((jsval + jsval) \<times> cache_state) option" where
  "cacheFallback cachedData error s =
     (case cachedData of
        Some c \<Rightarrow> Some (Inr (data c), s)
      | None \<Rightarrow> Some (Inl error, s))"

text \<open>
  The \<^verbatim>\<open>try\<close> block: the fetcher is invoked and awaited; on success the entry is written
  with the clock's reading at that moment. \<open>None\<close>: the await never resumes.
\<close>

definition fetchAndStore ::
  "string \<Rightarrow> behaviour \<Rightarrow> cache_entry option \<Rightarrow> cache_state \<Rightarrow>
     ((jsval + jsval) \<times> cache_state) option" where
  "fetchAndStore key fetcher cachedData s =
     (let s1 = s\<lparr>invocations := Suc (invocations s)\<rparr> in
      case fetcher of
        Throws error \<Rightarrow> cacheFallback cachedData error s1
      | Never \<Rightarrow> None
      | Settles d outcome \<Rightarrow>
          (let s2 = s1\<lparr>now := now s1 + int d\<rparr> in
           case outcome of
             Inl error \<Rightarrow> cacheFallback cachedData error s2
           | Inr v \<Rightarrow>
               Some (Inr v, s2\<lparr>cache := (cache s2)(key \<mapsto> \<lparr>data = v, timestamp = now s2\<rparr>)\<rparr>)))"

text \<open>
  \<^verbatim>\<open>fetchWithCache(key, fetcher, ttl = 60000)\<close>. The result is \<open>Inr\<close> the returned value
  or \<open>Inl\<close> the value the returned promise is rejected with.
\<close>

definition fetchWithCache ::
  "string \<Rightarrow> behaviour \<Rightarrow> int option \<Rightarrow> cache_state \<Rightarrow>
     ((jsval + jsval) \<times> cache_state) option" where
  "fetchWithCache key fetcher ttl_arg s =
     (let ttl = orDefault ttl_arg 60000;
          cachedData = cache s key
      in case cachedData of
           Some c \<Rightarrow>
             if timestamp c > now s - ttl then Some (Inr (data c), s)
             else fetchAndStore key fetcher cachedData s
         | None \<Rightarrow> fetchAndStore key fetcher cachedData s)"

text \<open>\<^verbatim>\<open>clearCache(key?)\<close>: a falsy key (absent, or the empty string) clears every entry.\<close>

definition clearCache :: "string option \<Rightarrow> cache_state \<Rightarrow> cache_state" where
  "clearCache key s =
     (case key of
        None \<Rightarrow> s\<lparr>cache := Map.empty\<rparr>
      | Some k \<Rightarrow> if k \<noteq> [] then s\<lparr>cache := (cache s)(k := None)\<rparr> else s\<lparr>cache := Map.empty\<rparr>)"

text \<open>An entry is fresh at clock reading \<open>t\<close> when \<^verbatim>\<open>now - timestamp < ttl\<close>.\<close>

definition fresh :: "cache_entry option \<Rightarrow> int \<Rightarrow> int \<Rightarrow> bool" where
  "fresh entry t ttl = (case entry of None \<Rightarrow> False | Some c \<Rightarrow> t - timestamp c < ttl)"

text \<open>The value a fetcher fails with, when it fails: thrown at once, or a rejected promise.\<close>

fun failure :: "behaviour \<Rightarrow> jsval option" where
  "failure (Throws e) = Some e"
| "failure (Settles d (Inl e)) = Some e"
| "failure (Settles d (Inr v)) = None"
| "failure Never = None"

section \<open>The resilient fetch wrappers\<close>

text \<open>
  A timer made by \<^verbatim>\<open>setTimeout\<close> is pending until it fires or is cleared.
  \<^verbatim>\<open>clearTimeout\<close> cancels a pending timer and does nothing to one that has fired.
\<close>

datatype timer_state = Pending | Fired | Cleared

fun clearTimeout :: "timer_state \<Rightarrow> timer_state" where
  "clearTimeout Pending = Cleared"
| "clearTimeout Fired = Fired"
| "clearTimeout Cleared = Cleared"

text \<open>
  What a wrapper leaves when the promise it returned settles: the value (\<open>Inr\<close>) or the
  rejection (\<open>Inl\<close>), the state of the timer the execution created, and the value with
  which a promise that nothing observes is rejected later, if there is one (an unhandled
  rejection, reported by the host and not to the caller).
\<close>

record wrapper_result =
  returned :: "jsval + jsval"
  timer :: timer_state
  unhandled :: "jsval option"

text \<open>
  The \<^verbatim>\<open>try\<close> block of \<^verbatim>\<open>fetchWithTimeout\<close>: the timer is set, then the fetcher is called
  and its promise raced against the timer's. Times are whole milliseconds from the call,
  and \<open>timeout\<close> is the delay after which the host fires the timer (a delay beyond
  2147483647 ms, which hosts replace by a short one, is outside the model). A promise that
  settles in the millisecond in which the timer fires is taken to lose the race (the timer
  was registered first). No branch clears the timer. When the fetcher throws before
  \<^verbatim>\<open>Promise.race\<close> is reached, nothing observes the timer's promise, and its rejection,
  \<open>timeout\<close> ms later, is unhandled.
\<close>

definition timedOut :: jsval where
  "timedOut = JError ''Error'' ''Request timed out''"

definition raceWithTimer ::
  "behaviour \<Rightarrow> nat \<Rightarrow> (jsval + jsval) \<times> timer_state \<times> jsval option" where
  "raceWithTimer fetcher timeout =
     (case fetcher of
        Throws error \<Rightarrow> (Inl error, Pending, Some timedOut)
      | Never \<Rightarrow> (Inl timedOut, Fired, None)
      | Settles d outcome \<Rightarrow>
          if d < timeout then (outcome, Pending, None)
          else (Inl timedOut, Fired, None))"

text \<open>
  \<^verbatim>\<open>fetchWithTimeout(fetcher, timeout = 5000, fallback = null)\<close>. A default applies when
  the argument is absent or \<^verbatim>\<open>undefined\<close>.
\<close>

definition fetchWithTimeout :: "behaviour \<Rightarrow> nat option \<Rightarrow> jsval \<Rightarrow> wrapper_result" where
  "fetchWithTimeout fetcher timeout_arg fallback_arg =
     (let timeout = orDefault timeout_arg 5000;
          fallback = (if fallback_arg = JUndefined then JNull else fallback_arg)
      in case raceWithTimer fetcher timeout of
           (Inr result, tm, un) \<Rightarrow> \<lparr>returned = Inr result, timer = tm, unhandled = un\<rparr>
         | (Inl error, tm, un) \<Rightarrow> \<lparr>returned = Inr fallback, timer = tm, unhandled = un\<rparr>)"

text \<open>
  The timer fires before the fetcher's promise settles: the promise settles later than
  \<open>timeout\<close> ms after the call, or never.
\<close>

fun timerFiresFirst :: "behaviour \<Rightarrow> nat \<Rightarrow> bool" where
  "timerFiresFirst (Throws e) timeout = False"
| "timerFiresFirst (Settles d outcome) timeout = (timeout < d)"
| "timerFiresFirst Never timeout = True"

text \<open>
  The \<^verbatim>\<open>fetch\<close> option of the client (lines 27 to 53): a 10 second timer aborts the
  request; both the \<^verbatim>\<open>then\<close> and the \<^verbatim>\<open>catch\<close> handler clear the timer, and a failure
  is replaced by a mock response with status 200. The platform's \<^verbatim>\<open>fetch\<close> returns a promise
  that settles after some milliseconds or stalls; once aborted it rejects.
\<close>

datatype fetch_behaviour = Completes nat "jsval + jsval" | Stalls

definition mockResponse :: jsval where
  "mockResponse =
     JObj [(''status'', JNum 200),
           (''body'', JObj [(''error'', JStr ''Network error''), (''fallback'', JBool True)])]"

definition supabaseFetch :: "fetch_behaviour \<Rightarrow> wrapper_result" where
  "supabaseFetch net =
     (case net of
        Stalls \<Rightarrow>
          \<lparr>returned = Inr mockResponse, timer = clearTimeout Fired, unhandled = None\<rparr>
      | Completes d outcome \<Rightarrow>
          if d < 10000 then
            (case outcome of
               Inr response \<Rightarrow>
                 \<lparr>returned = Inr response, timer = clearTimeout Pending, unhandled = None\<rparr>
             | Inl error \<Rightarrow>
                 \<lparr>returned = Inr mockResponse, timer = clearTimeout Pending, unhandled = None\<rparr>)
          else \<lparr>returned = Inr mockResponse, timer = clearTimeout Fired, unhandled = None\<rparr>)"

text \<open>
  \<^verbatim>\<open>safeSupabaseQuery(queryFn, fallbackData = null)\<close>. The result of the query is awaited
  with no timer (\<open>None\<close>: the await never resumes); reading \<^verbatim>\<open>result.error\<close> or
  \<^verbatim>\<open>result.data\<close> of a result that is \<^verbatim>\<open>null\<close> or \<^verbatim>\<open>undefined\<close> throws inside the \<^verbatim>\<open>try\<close>.
\<close>

definition awaitCall :: "behaviour \<Rightarrow> (jsval + jsval) option" where
  "awaitCall f =
     (case f of Throws error \<Rightarrow> Some (Inl error) | Settles d outcome \<Rightarrow> Some outcome | Never \<Rightarrow> None)"

definition inspectResult :: "jsval \<Rightarrow> jsval \<Rightarrow> jsval + jsval" where
  "inspectResult result fallbackData =
     (case getProp result ''error'' of
        Inl thrown \<Rightarrow> Inl thrown
      | Inr err \<Rightarrow>
          if truthy err
          then Inr (JObj [(''data'', fallbackData), (''error'', err), (''usedFallback'', JBool True)])
          else (case getProp result ''data'' of
                  Inl thrown \<Rightarrow> Inl thrown
                | Inr payload \<Rightarrow>
                    Inr (JObj [(''data'', payload), (''error'', JNull),
                               (''usedFallback'', JBool False)])))"

definition safeSupabaseQuery :: "behaviour \<Rightarrow> jsval \<Rightarrow> (jsval + jsval) option" where
  "safeSupabaseQuery queryFn fallbackData_arg =
     (let fallbackData = (if fallbackData_arg = JUndefined then JNull else fallbackData_arg) in
      case awaitCall queryFn of
        None \<Rightarrow> None
      | Some (Inl error) \<Rightarrow>
          Some (Inr (JObj [(''data'', fallbackData), (''error'', error),
                           (''usedFallback'', JBool True)]))
      | Some (Inr result) \<Rightarrow>
          (case inspectResult result fallbackData of
             Inr outcome \<Rightarrow> Some (Inr outcome)
           | Inl error \<Rightarrow>
               Some (Inr (JObj [(''data'', fallbackData), (''error'', error),
                                (''usedFallback'', JBool True)]))))"

section \<open>Strings\<close>

text \<open>
  Strings are lists of 8-bit characters, in UTF-8. \<^verbatim>\<open>String.prototype.toLowerCase\<close> is the
  host's function, defined over all of Unicode; the filters below take it as a parameter
  \<open>toLowerCase\<close>, so that what is proved of them is proved for the host's function and
  not for an approximation of it. \<^verbatim>\<open>trim\<close> is modelled on the ASCII white space.
\<close>

type_synonym lowering = "string \<Rightarrow> string"

text \<open>
  For the examples, a lowering function that agrees with the host's on the strings made
  of ASCII characters and of the letters of the Latin-1 supplement: \<^verbatim>\<open>A\<close> to \<^verbatim>\<open>Z\<close> go to
  \<^verbatim>\<open>a\<close> to \<^verbatim>\<open>z\<close>, and the two-byte characters U+00C0 to U+00DE (bytes \<open>C3 80\<close> to
  \<open>C3 9E\<close>), without the multiplication sign U+00D7, go to U+00E0 to U+00FE.
\<close>

definition lowerChar :: "char \<Rightarrow> char" where
  "lowerChar c =
     (case map_of (zip ''ABCDEFGHIJKLMNOPQRSTUVWXYZ'' ''abcdefghijklmnopqrstuvwxyz'') c of
        Some l \<Rightarrow> l
      | None \<Rightarrow> c)"

text \<open>
  On a string of ASCII characters the host's \<^verbatim>\<open>toLowerCase\<close> is \<open>lowerAscii\<close>.
\<close>

definition isAscii :: "string \<Rightarrow> bool" where
  "isAscii s = list_all (\<lambda>c. (of_char c :: nat) < 128) s"

definition lowerAscii :: lowering where
  "lowerAscii s = map lowerChar s"

definition lowerLatin1Byte :: "char \<Rightarrow> char" where
  "lowerLatin1Byte c =
     (let n = (of_char c :: nat) in
      if 128 \<le> n \<and> n \<le> 158 \<and> n \<noteq> 151 then char_of (n + 32) else c)"

fun lowerLatin1 :: lowering where
  "lowerLatin1 [] = []"
| "lowerLatin1 [c] = [lowerChar c]"
| "lowerLatin1 (c # d # ds) =
     (if c = CHR 0xC3 then c # lowerLatin1Byte d # lowerLatin1 ds
      else lowerChar c # lowerLatin1 (d # ds))"

text \<open>\<^verbatim>\<open>hay.includes(needle)\<close>: the needle occurs in the hay at some position.\<close>

fun str_includes :: "string \<Rightarrow> string \<Rightarrow> bool" where
  "str_includes [] needle = (needle = [])"
| "str_includes (c # cs) needle = (prefix needle (c # cs) \<or> str_includes cs needle)"

text \<open>\<^verbatim>\<open>s.split(sep)\<close> for a separator of one character; the result is never empty.\<close>

fun split_on :: "char \<Rightarrow> string \<Rightarrow> string list" where
  "split_on sep [] = [[]]"
| "split_on sep (c # cs) =
     (if c = sep then [] # split_on sep cs
      else (case split_on sep cs of
              [] \<Rightarrow> [[c]]
            | part # parts \<Rightarrow> (c # part) # parts))"

definition isSpace :: "char \<Rightarrow> bool" where
  "isSpace c = (c \<in> set [CHR '' '', CHR 0x09, CHR 0x0A, CHR 0x0B, CHR 0x0C, CHR 0x0D])"

definition trim :: "string \<Rightarrow> string" where
  "trim s = rev (dropWhile isSpace (rev (dropWhile isSpace s)))"

definition isDigit :: "char \<Rightarrow> bool" where
  "isDigit c = (let n = (of_char c :: nat) in 48 \<le> n \<and> n \<le> 57)"

definition digitVal :: "char \<Rightarrow> nat" where
  "digitVal c = of_char c - 48"

text \<open>
  \<^verbatim>\<open>Number(s)\<close> on a string: white space around is dropped, the empty string is 0, a
  string of decimal digits is its value. \<open>None\<close> stands for \<^verbatim>\<open>NaN\<close>. Only this part of
  the numeric grammar is modelled: a sign, a fraction, an exponent or a radix prefix, which
  JavaScript reads as well, yields \<open>None\<close> here. The hour of an \<^verbatim>\<open>H:MM\<close> time has none
  of them.
\<close>

abbreviation decimal :: "string \<Rightarrow> nat" where
  "decimal \<equiv> foldl (\<lambda>acc c. 10 * acc + digitVal c) 0"

definition toNumber :: "string \<Rightarrow> nat option" where
  "toNumber s =
     (let t = trim s in
      if t = [] then Some 0
      else if list_all isDigit t then Some (decimal t)
      else None)"

section \<open>The in-memory filter pipeline\<close>

text \<open>
  The columns of a \<^verbatim>\<open>playgrounds\<close> row that the filters of the search page read. A column
  that is \<^verbatim>\<open>null\<close> is \<open>None\<close>; \<^verbatim>\<open>opening_hours\<close> is a JSON object from day names to strings
  (or \<^verbatim>\<open>null\<close>), kept in the order of its keys.
\<close>

record playground =
  name :: string
  features :: "string list option"
  opening_hours :: "(string \<times> string option) list option"
  google_rating :: "rat option"

text \<open>
  The callback of \<^verbatim>\<open>Object.values(hours).some(...)\<close> in the \<^verbatim>\<open>'late'\<close> case: the part after
  the first \<^verbatim>\<open>-\<close> is trimmed, its part before the first \<^verbatim>\<open>:\<close> converted by \<^verbatim>\<open>Number\<close>
  and compared with 18 (a comparison with \<^verbatim>\<open>NaN\<close> is false).
\<close>

definition closesLate :: "string option \<Rightarrow> bool" where
  "closesLate timeRange =
     (case timeRange of
        None \<Rightarrow> False
      | Some str \<Rightarrow>
          if str = [] then False
          else (case split_on CHR ''-'' str of
                  opening # part # rest \<Rightarrow>
                    (let closingTime = trim part in
                     if closingTime = [] then False
                     else (case split_on CHR '':'' closingTime of
                             [] \<Rightarrow> False
                           | h # ms \<Rightarrow>
                               (case toNumber h of None \<Rightarrow> False | Some hour \<Rightarrow> hour \<ge> 18)))
                | _ \<Rightarrow> False))"

text \<open>
  The \<^verbatim>\<open>switch (category)\<close> of the category filter. The keyword \<^verbatim>\<open>caf\<close> with an acute
  \<^verbatim>\<open>e\<close> is written in its UTF-8 bytes.
\<close>

definition categoryMatch :: "lowering \<Rightarrow> string \<Rightarrow> playground \<Rightarrow> bool" where
  "categoryMatch toLowerCase category playground =
     (let fs = (case features playground of None \<Rightarrow> [] | Some tags \<Rightarrow> map toLowerCase tags) in
      if category = ''toddler'' then
        list_ex (\<lambda>f. str_includes f ''toddler'' \<or> str_includes f ''baby'' \<or>
                      str_includes f ''0-2'' \<or> str_includes f ''under 3'') fs
      else if category = ''party'' then
        list_ex (\<lambda>f. str_includes f ''party'' \<or> str_includes f ''celebration'' \<or>
                      str_includes f ''events'') fs
      else if category = ''cafe'' then
        list_ex (\<lambda>f. str_includes f (''caf'' @ [CHR 0xC3, CHR 0xA9]) \<or> str_includes f ''cafe'' \<or>
                      str_includes f ''food'' \<or> str_includes f ''refreshments'') fs
      else if category = ''parking'' then
        list_ex (\<lambda>f. str_includes f ''free parking'' \<or> str_includes f ''parking'' \<or>
                      str_includes f ''car park'') fs
      else if category = ''late'' then
        (case opening_hours playground of
           None \<Rightarrow> False
         | Some hours \<Rightarrow> list_ex closesLate (map snd hours))
      else True)"

text \<open>
  The category step of the live path (\<^verbatim>\<open>if (category && filteredData.length > 0)\<close>) and
  of the mock path (\<^verbatim>\<open>if (category)\<close>).
\<close>

definition categoryStep :: "lowering \<Rightarrow> string \<Rightarrow> playground list \<Rightarrow> playground list" where
  "categoryStep toLowerCase category filteredData =
     (if category \<noteq> [] \<and> length filteredData > 0
      then filter (categoryMatch toLowerCase category) filteredData else filteredData)"

definition categoryStepMock :: "lowering \<Rightarrow> string \<Rightarrow> playground list \<Rightarrow> playground list" where
  "categoryStepMock toLowerCase category mockData =
     (if category \<noteq> [] then filter (categoryMatch toLowerCase category) mockData else mockData)"

text \<open>
  The feature step, the same text in both paths. \<^verbatim>\<open>playground.features?.some(...)\<close> is
  \<^verbatim>\<open>undefined\<close>, hence falsy, when the row has no feature list.
\<close>

definition hasFeature :: "lowering \<Rightarrow> playground \<Rightarrow> string \<Rightarrow> bool" where
  "hasFeature toLowerCase playground feature =
     (case features playground of
        None \<Rightarrow> False
      | Some tags \<Rightarrow> list_ex (\<lambda>f. str_includes (toLowerCase f) (toLowerCase feature)) tags)"

definition featureStep :: "lowering \<Rightarrow> string list \<Rightarrow> playground list \<Rightarrow> playground list" where
  "featureStep toLowerCase selectedFeatures filteredData =
     (if length selectedFeatures > 0
      then filter (\<lambda>playground. list_all (hasFeature toLowerCase playground) selectedFeatures)
             filteredData
      else filteredData)"

text \<open>
  In the words of the specification: \<open>s\<close> matches a tag as a case-insensitive substring
  when, both put in lower case, \<open>s\<close> occurs in the tag as a contiguous run of characters.
\<close>

definition caseInsensitiveSubstring :: "lowering \<Rightarrow> string \<Rightarrow> string \<Rightarrow> bool" where
  "caseInsensitiveSubstring toLowerCase s tag = sublist (toLowerCase s) (toLowerCase tag)"

text \<open>
  The rating step, the same text in both paths. \<^verbatim>\<open>Math.min(...selectedRatings)\<close> is taken of
  a non-empty array; the callback \<^verbatim>\<open>google_rating && google_rating >= minRating\<close> is falsy
  for a rating that is \<^verbatim>\<open>null\<close> or 0.
\<close>

definition ratingOk :: "rat \<Rightarrow> playground \<Rightarrow> bool" where
  "ratingOk minRating playground =
     (case google_rating playground of
        None \<Rightarrow> False
      | Some r \<Rightarrow> r \<noteq> 0 \<and> r \<ge> minRating)"

definition ratingStep :: "rat list \<Rightarrow> playground list \<Rightarrow> playground list" where
  "ratingStep selectedRatings filteredData =
     (case selectedRatings of
        [] \<Rightarrow> filteredData
      | r # rs \<Rightarrow> (let minRating = fold min rs r in filter (ratingOk minRating) filteredData))"

text \<open>
  The thresholds the page offers as check boxes, and \<^verbatim>\<open>toggleRating\<close>, through which
  (beside the reset to the empty list) the selection changes.
\<close>

definition ratingOptions :: "rat list" where
  "ratingOptions = [9 / 2, 4, 7 / 2, 3]"

definition toggleRating :: "rat \<Rightarrow> rat list \<Rightarrow> rat list" where
  "toggleRating rating prev =
     (if rating \<in> set prev then filter (\<lambda>r. r \<noteq> rating) prev else prev @ [rating])"

text \<open>The open-today step: \<^verbatim>\<open>hours[currentDay] && hours[currentDay].length > 0\<close>.\<close>

definition openTodayStep :: "bool \<Rightarrow> string \<Rightarrow> playground list \<Rightarrow> playground list" where
  "openTodayStep openToday currentDay filteredData =
     (if openToday
      then filter (\<lambda>playground.
             case opening_hours playground of
               None \<Rightarrow> False
             | Some hours \<Rightarrow>
                 (case map_of hours currentDay of
                    Some (Some str) \<Rightarrow> str \<noteq> []
                  | _ \<Rightarrow> False)) filteredData
      else filteredData)"

text \<open>The in-memory part of \<^verbatim>\<open>fetchPlaygrounds\<close> on the rows the query returned.\<close>

definition filterPlaygrounds ::
  "lowering \<Rightarrow> string \<Rightarrow> string list \<Rightarrow> rat list \<Rightarrow> bool \<Rightarrow> string \<Rightarrow>
     playground list \<Rightarrow> playground list" where
  "filterPlaygrounds toLowerCase category selectedFeatures selectedRatings openToday currentDay rows =
     openTodayStep openToday currentDay
       (ratingStep selectedRatings
          (featureStep toLowerCase selectedFeatures
             (categoryStep toLowerCase category rows)))"

section \<open>Opening hours in the format of the specification\<close>

text \<open>
  The specification describes an opening-hours entry as an \<^verbatim>\<open>HH:MM-HH:MM\<close> string. The
  definitions of this section follow those words, not the code: a day is closed (its
  entry is \<^verbatim>\<open>null\<close>) or open between two times of day, and a time of day is written as
  its hour in decimal (padded to two digits or not, as in \<^verbatim>\<open>09:30\<close> and \<^verbatim>\<open>9:30\<close>), a
  colon, and its minute in two digits.
\<close>

definition digitChar :: "nat \<Rightarrow> char" where
  "digitChar n = ''0123456789'' ! (n mod 10)"

fun showNat :: "nat \<Rightarrow> string" where
  "showNat n = (if n < 10 then [digitChar n] else showNat (n div 10) @ [digitChar (n mod 10)])"

declare showNat.simps [simp del]

definition twoDigits :: "nat \<Rightarrow> string" where
  "twoDigits n = (if n < 10 then CHR ''0'' # showNat n else showNat n)"

record time_of_day =
  hour :: nat
  minute :: nat

definition hourText :: "bool \<Rightarrow> time_of_day \<Rightarrow> string" where
  "hourText padded t = (if padded then twoDigits (hour t) else showNat (hour t))"

definition showTime :: "bool \<Rightarrow> time_of_day \<Rightarrow> string" where
  "showTime padded t = hourText padded t @ '':'' @ twoDigits (minute t)"

datatype day_hours = ClosedAllDay | OpenBetween time_of_day time_of_day

fun showDay :: "bool \<Rightarrow> day_hours \<Rightarrow> string option" where
  "showDay padded ClosedAllDay = None"
| "showDay padded (OpenBetween opens closes) =
     Some (showTime padded opens @ ''-'' @ showTime padded closes)"

definition showHours :: "bool \<Rightarrow> (string \<times> day_hours) list \<Rightarrow> (string \<times> string option) list" where
  "showHours padded schedule = map (\<lambda>(day, h). (day, showDay padded h)) schedule"

text \<open>Some day of the schedule closes at 18 or later.\<close>

definition closesAtOrAfter18 :: "(string \<times> day_hours) list \<Rightarrow> bool" where
  "closesAtOrAfter18 schedule =
     list_ex (\<lambda>(day, h). case h of ClosedAllDay \<Rightarrow> False
                                | OpenBetween opens closes \<Rightarrow> 18 \<le> hour closes) schedule"

section \<open>Properties of the keyed TTL cache\<close>

lemma fetchAndStore_success:
  "fetchAndStore k (Settles d (Inr v)) entry s =
     Some (Inr v, s\<lparr>invocations := Suc (invocations s), now := now s + int d,
                    cache := (cache s)(k \<mapsto> \<lparr>data = v, timestamp = now s + int d\<rparr>)\<rparr>)"
  by (simp add: fetchAndStore_def Let_def)

lemma fetchAndStore_failure:
  assumes "failure f = Some e"
  shows "\<exists>s'. fetchAndStore k f entry s =
           Some ((case entry of Some c \<Rightarrow> Inr (data c) | None \<Rightarrow> Inl e), s') \<and>
           cache s' = cache s"
  using assms
  by (cases f rule: failure.cases)
     (simp_all add: fetchAndStore_def cacheFallback_def Let_def split: option.splits)

lemma fetchWithCache_hit:
  "cache s k = Some c \<Longrightarrow> fresh (Some c) (now s) (orDefault ttl_arg 60000) \<Longrightarrow>
     fetchWithCache k f ttl_arg s = Some (Inr (data c), s)"
  by (simp add: fetchWithCache_def fresh_def)

lemma fetchWithCache_miss:
  "\<not> fresh (cache s k) (now s) (orDefault ttl_arg 60000) \<Longrightarrow>
     fetchWithCache k f ttl_arg s = fetchAndStore k f (cache s k) s"
  by (auto simp add: fetchWithCache_def fresh_def split: option.splits)

lemma fetchWithCache_cases:
  "fetchWithCache k f ttl_arg s = fetchAndStore k f (cache s k) s \<or>
   (\<exists>c. cache s k = Some c \<and> fetchWithCache k f ttl_arg s = Some (Inr (data c), s))"
  by (simp add: fetchWithCache_def Let_def split: option.splits)

text \<open>
  Claim C1. Two calls of \<^verbatim>\<open>fetchWithCache(k, f, ttl)\<close>, the first one successful (its
  fetcher, if invoked, resolves after \<open>d\<close> ms with \<open>v\<close>), the second one made at a clock
  reading \<open>t2\<close> less than \<open>ttl\<close> ms after an instant \<open>t0\<close> of the first call (its start
  \<open>now s\<close>, or any instant up to the moment its entry is written), invoke the fetcher
  at most once. When the first call did fetch, the entry it wrote is fresh at \<open>t2\<close>
  (\<^verbatim>\<open>now - timestamp < ttl\<close>) and the second call returns the stored payload, the fetcher
  \<open>f2\<close> not being invoked and the state unchanged. When the first call was itself served
  from a fresh entry it invoked nothing, and the second call invokes the fetcher at most
  once. Here \<open>ttl\<close> is the argument, or 60000 when it is left out.
\<close>

theorem fetchWithCache_twice_within_ttl:
  fixes ttl_arg :: "int option"
  defines "ttl \<equiv> orDefault ttl_arg 60000"
  assumes t0: "t0 \<le> now s + int d" and within: "t2 - t0 < ttl"
  shows "\<exists>r1 s1. fetchWithCache k (Settles d (Inr v)) ttl_arg s = Some (r1, s1) \<and>
           (if fresh (cache s k) (now s) ttl
            then invocations s1 = invocations s \<and>
                 (\<forall>r2 s2. fetchWithCache k f2 ttl_arg (s1\<lparr>now := t2\<rparr>) = Some (r2, s2)
                      \<longrightarrow> invocations s2 \<le> invocations s + 1)
            else r1 = Inr v \<and> invocations s1 = invocations s + 1 \<and>
                 fresh (cache s1 k) t2 ttl \<and>
                 fetchWithCache k f2 ttl_arg (s1\<lparr>now := t2\<rparr>) = Some (Inr v, s1\<lparr>now := t2\<rparr>))"
proof (cases "fresh (cache s k) (now s) ttl")
  case True
  then obtain c where c: "cache s k = Some c"
    by (auto simp: fresh_def split: option.splits)
  with True have first: "fetchWithCache k (Settles d (Inr v)) ttl_arg s = Some (Inr (data c), s)"
    unfolding ttl_def by (simp add: fetchWithCache_hit)
  have "invocations s2 \<le> invocations s + 1"
    if "fetchWithCache k f2 ttl_arg (s\<lparr>now := t2\<rparr>) = Some (r2, s2)" for r2 s2
    using that
    by (auto simp: fetchWithCache_def fetchAndStore_def cacheFallback_def Let_def
             split: option.splits if_splits behaviour.splits sum.splits)
  with True first show ?thesis by simp
next
  case False
  let ?t = "now s + int d"
  let ?s1 = "s\<lparr>invocations := Suc (invocations s), now := ?t,
                cache := (cache s)(k \<mapsto> \<lparr>data = v, timestamp = ?t\<rparr>)\<rparr>"
  from False have first: "fetchWithCache k (Settles d (Inr v)) ttl_arg s = Some (Inr v, ?s1)"
    unfolding ttl_def by (simp add: fetchWithCache_miss fetchAndStore_success)
  from t0 within have fr: "fresh (cache ?s1 k) t2 ttl"
    by (simp add: fresh_def)
  then have "fetchWithCache k f2 ttl_arg (?s1\<lparr>now := t2\<rparr>) = Some (Inr v, ?s1\<lparr>now := t2\<rparr>)"
    using fetchWithCache_hit [of "?s1\<lparr>now := t2\<rparr>" k "\<lparr>data = v, timestamp = ?t\<rparr>" ttl_arg f2]
    unfolding ttl_def by simp
  with False first fr show ?thesis by simp
qed

text \<open>
  An empty cache at clock reading 1000; the fetcher resolves with \<^verbatim>\<open>"A"\<close> after 120 ms; the
  second call comes at 60999, which is 59999 ms after the start of the first.
\<close>

theorem fetchWithCache_twice_within_ttl_witness:
  "(1000::int) \<le> 1000 + int 120 \<and> (60999::int) - 1000 < orDefault (Some 60000) 60000 \<and>
   (\<exists>r1 s1. fetchWithCache ''venues'' (Settles 120 (Inr (JStr ''A''))) (Some 60000)
          \<lparr>cache = Map.empty, now = 1000, invocations = 0\<rparr> = Some (r1, s1) \<and>
        r1 = Inr (JStr ''A'') \<and> invocations s1 = 1 \<and>
        fetchWithCache ''venues'' (Settles 5 (Inr (JStr ''B''))) (Some 60000) (s1\<lparr>now := 60999\<rparr>)
          = Some (Inr (JStr ''A''), s1\<lparr>now := 60999\<rparr>))"
  using fetchWithCache_twice_within_ttl [where ?t0.0 = 1000
     and s = "\<lparr>cache = Map.empty, now = 1000, invocations = 0\<rparr>" and d = 120
     and ?t2.0 = 60999 and ttl_arg = "Some 60000" and k = "''venues''" and v = "JStr ''A''"
     and ?f2.0 = "Settles 5 (Inr (JStr ''B''))"]
  by (auto simp: fresh_def orDefault_def)

text \<open>
  The first branch of the theorem at work: an entry written at 0 is fresh at 90 for a ttl
  of 100, so the first call is served from it; at 150, 60 ms after the first call, the
  entry is stale and the second call invokes the fetcher, once.
\<close>

lemma fetchWithCache_hit_then_refresh:
  "fetchWithCache ''k'' (Settles 7 (Inr (JStr ''new''))) (Some 100)
     \<lparr>cache = [''k'' \<mapsto> \<lparr>data = JStr ''old'', timestamp = 0\<rparr>], now = 90, invocations = 0\<rparr>
   = Some (Inr (JStr ''old''),
       \<lparr>cache = [''k'' \<mapsto> \<lparr>data = JStr ''old'', timestamp = 0\<rparr>], now = 90, invocations = 0\<rparr>) \<and>
   fetchWithCache ''k'' (Settles 7 (Inr (JStr ''new''))) (Some 100)
     \<lparr>cache = [''k'' \<mapsto> \<lparr>data = JStr ''old'', timestamp = 0\<rparr>], now = 150, invocations = 0\<rparr>
   = Some (Inr (JStr ''new''),
       \<lparr>cache = [''k'' \<mapsto> \<lparr>data = JStr ''new'', timestamp = 157\<rparr>], now = 157, invocations = 1\<rparr>)"
  by (simp add: fetchWithCache_def fetchAndStore_def orDefault_def)

text \<open>
  Claim C2. When the fetcher fails with \<open>e\<close> (it throws, or its promise is rejected) and
  an entry exists for the key, fresh or stale, \<^verbatim>\<open>fetchWithCache\<close> returns that entry's
  payload; when no entry exists the returned promise is rejected with \<open>e\<close>.
\<close>

theorem fetchWithCache_fetcher_fails:
  assumes "failure f = Some e"
  shows "\<exists>s'. fetchWithCache k f ttl_arg s =
           Some ((case cache s k of Some c \<Rightarrow> Inr (data c) | None \<Rightarrow> Inl e), s')"
  using fetchWithCache_cases [of k f ttl_arg s] fetchAndStore_failure [OF assms, of k "cache s k" s]
  by auto

text \<open>
  A stale entry (written at 0, read at 100000 with the default ttl) is returned when the
  refresh is rejected; with no entry the rejection reaches the caller.
\<close>

theorem fetchWithCache_fetcher_fails_witness:
  "failure (Settles 30 (Inl (JError ''Error'' ''offline''))) = Some (JError ''Error'' ''offline'') \<and>
   (\<exists>s'. fetchWithCache ''k'' (Settles 30 (Inl (JError ''Error'' ''offline''))) None
      \<lparr>cache = [''k'' \<mapsto> \<lparr>data = JStr ''old'', timestamp = 0\<rparr>], now = 100000, invocations = 0\<rparr>
        = Some (Inr (JStr ''old''), s')) \<and>
   (\<exists>s'. fetchWithCache ''k'' (Settles 30 (Inl (JError ''Error'' ''offline''))) None
      \<lparr>cache = Map.empty, now = 100000, invocations = 0\<rparr>
        = Some (Inl (JError ''Error'' ''offline''), s'))"
  using fetchWithCache_fetcher_fails [of "Settles 30 (Inl (JError ''Error'' ''offline''))"
          "JError ''Error'' ''offline''" "''k''" None
          "\<lparr>cache = [''k'' \<mapsto> \<lparr>data = JStr ''old'', timestamp = 0\<rparr>], now = 100000, invocations = 0\<rparr>"]
        fetchWithCache_fetcher_fails [of "Settles 30 (Inl (JError ''Error'' ''offline''))"
          "JError ''Error'' ''offline''" "''k''" None
          "\<lparr>cache = Map.empty, now = 100000, invocations = 0\<rparr>"]
  by simp

text \<open>
  Claim C9. When the fetcher fails, the call returns and leaves the cache as it was:
  no entry is written, overwritten or deleted, for the key or for any other key.
\<close>

theorem fetchWithCache_failure_keeps_cache:
  assumes "failure f = Some e"
  shows "\<exists>r s'. fetchWithCache k f ttl_arg s = Some (r, s') \<and> cache s' = cache s"
  using fetchWithCache_cases [of k f ttl_arg s] fetchAndStore_failure [OF assms, of k "cache s k" s]
  by auto

theorem fetchWithCache_failure_keeps_cache_witness:
  "failure (Throws (JStr ''boom'')) = Some (JStr ''boom'') \<and>
   (\<exists>r s'. fetchWithCache ''k'' (Throws (JStr ''boom'')) (Some 10)
      \<lparr>cache = [''k'' \<mapsto> \<lparr>data = JNum 1, timestamp = 0\<rparr>, ''j'' \<mapsto> \<lparr>data = JNum 2, timestamp = 5\<rparr>],
       now = 50, invocations = 3\<rparr> = Some (r, s') \<and>
      cache s' = [''k'' \<mapsto> \<lparr>data = JNum 1, timestamp = 0\<rparr>, ''j'' \<mapsto> \<lparr>data = JNum 2, timestamp = 5\<rparr>])"
  using fetchWithCache_failure_keeps_cache [of "Throws (JStr ''boom'')" "JStr ''boom''" "''k''" "Some 10"
      "\<lparr>cache = [''k'' \<mapsto> \<lparr>data = JNum 1, timestamp = 0\<rparr>, ''j'' \<mapsto> \<lparr>data = JNum 2, timestamp = 5\<rparr>],
       now = 50, invocations = 3\<rparr>"]
  by simp

section \<open>Properties of the resilient fetch wrappers\<close>

lemma fetchWithTimeout_returns:
  "\<exists>r. returned (fetchWithTimeout f timeout_arg v) = Inr r"
  by (simp add: fetchWithTimeout_def Let_def split: prod.splits sum.splits)

lemma raceWithTimer_loses:
  "failure f = Some e \<or> timerFiresFirst f t \<Longrightarrow> \<exists>e' tm un. raceWithTimer f t = (Inl e', tm, un)"
  by (cases f rule: failure.cases) (auto simp: raceWithTimer_def)

text \<open>
  Claim C3. \<^verbatim>\<open>fetchWithTimeout(f, t, v)\<close> returns the fallback (\<open>v\<close>, or \<^verbatim>\<open>null\<close> when \<open>v\<close> is
  \<^verbatim>\<open>undefined\<close>, the parameter's default) whenever \<open>f\<close> fails or the timer (set to \<open>t\<close>
  ms, or to 5000 when \<open>t\<close> is left out) fires before \<open>f\<close>'s promise settles; and whatever
  \<open>f\<close> does, the promise handed to the caller is fulfilled, never rejected.
\<close>

theorem fetchWithTimeout_fallback:
  "(failure f = Some e \<or> timerFiresFirst f (orDefault t 5000) \<longrightarrow>
      returned (fetchWithTimeout f t v) = Inr (if v = JUndefined then JNull else v)) \<and>
   (\<exists>r. returned (fetchWithTimeout f' t' v') = Inr r)"
proof (intro conjI impI)
  assume "failure f = Some e \<or> timerFiresFirst f (orDefault t 5000)"
  then obtain e' tm un where "raceWithTimer f (orDefault t 5000) = (Inl e', tm, un)"
    using raceWithTimer_loses by blast
  then show "returned (fetchWithTimeout f t v) = Inr (if v = JUndefined then JNull else v)"
    by (simp add: fetchWithTimeout_def)
next
  show "\<exists>r. returned (fetchWithTimeout f' t' v') = Inr r"
    by (rule fetchWithTimeout_returns)
qed

text \<open>
  The scenario of the specification: \<open>f\<close> resolves after 500 ms, the timeout is 100 ms.
  And a fetcher whose promise is rejected after 20 ms, well before the timer.
\<close>

theorem fetchWithTimeout_fallback_witness:
  "timerFiresFirst (Settles 500 (Inr (JStr ''late''))) (orDefault (Some 100) 5000) \<and>
   returned (fetchWithTimeout (Settles 500 (Inr (JStr ''late''))) (Some 100) (JStr ''X'')) = Inr (JStr ''X'') \<and>
   failure (Settles 20 (Inl (JStr ''down''))) = Some (JStr ''down'') \<and>
   returned (fetchWithTimeout (Settles 20 (Inl (JStr ''down''))) (Some 100) (JStr ''X'')) = Inr (JStr ''X'')"
  using fetchWithTimeout_fallback [of "Settles 500 (Inr (JStr ''late''))" JUndefined "Some 100" "JStr ''X''"]
        fetchWithTimeout_fallback [of "Settles 20 (Inl (JStr ''down''))" "JStr ''down''" "Some 100" "JStr ''X''"]
  by (simp add: orDefault_def)

lemma supabaseFetch_clears_timer: "timer (supabaseFetch net) \<noteq> Pending"
  by (simp add: supabaseFetch_def split: fetch_behaviour.splits sum.splits)

lemma fetchWithTimeout_never_clears: "timer (fetchWithTimeout f timeout_arg v) \<noteq> Cleared"
  by (simp add: fetchWithTimeout_def raceWithTimer_def Let_def
           split: prod.splits sum.splits behaviour.splits if_splits)

lemma fetchWithTimeout_pending_when_fetcher_wins:
  "d < orDefault timeout_arg 5000 \<Longrightarrow>
     timer (fetchWithTimeout (Settles d outcome) timeout_arg v) = Pending"
  by (simp add: fetchWithTimeout_def raceWithTimer_def split: sum.splits)

text \<open>
  The timer that is left pending is harmless when the fetcher's promise won the race: the
  race observes the timer's promise. After a synchronous throw of the fetcher nothing
  does, and the host reports an unhandled rejection when the timer fires.
\<close>

lemma fetchWithTimeout_unhandled:
  "unhandled (fetchWithTimeout f timeout_arg v) =
     (case f of Throws e \<Rightarrow> Some timedOut | Settles d outcome \<Rightarrow> None | Never \<Rightarrow> None)"
  by (simp add: fetchWithTimeout_def raceWithTimer_def Let_def
           split: prod.splits sum.splits behaviour.splits if_splits)

lemma supabaseFetch_no_unhandled: "unhandled (supabaseFetch net) = None"
  by (simp add: supabaseFetch_def split: fetch_behaviour.splits sum.splits)

text \<open>
  Claim C4. The timer is cleared on every path of the client's \<^verbatim>\<open>fetch\<close> option
  (\<open>supabaseFetch_clears_timer\<close>), and on no path of \<^verbatim>\<open>fetchWithTimeout\<close>, which never calls
  \<^verbatim>\<open>clearTimeout\<close>: when the fetcher resolves after 10 ms and the timeout is the default
  5000 ms, the function returns the fetcher's value and its timer is still pending.
\<close>

theorem fetchWithTimeout_timer_left_pending:
  "fetchWithTimeout (Settles 10 (Inr (JStr ''rows''))) None JNull =
     \<lparr>returned = Inr (JStr ''rows''), timer = Pending, unhandled = None\<rparr>"
  by (simp add: fetchWithTimeout_def raceWithTimer_def orDefault_def)

lemma safeSupabaseQuery_fulfilled:
  "safeSupabaseQuery q fb \<noteq> Some (Inl x)"
  by (simp add: safeSupabaseQuery_def Let_def split: option.splits sum.splits)

lemma inspectResult_shape:
  "inspectResult result fallbackData = Inr outcome \<Longrightarrow>
     \<exists>d e u. outcome = JObj [(''data'', d), (''error'', e), (''usedFallback'', JBool u)]"
  by (auto simp: inspectResult_def split: sum.splits if_splits)

text \<open>
  Whenever the query settles, the returned promise is fulfilled with an object of the
  three fields \<^verbatim>\<open>data\<close>, \<^verbatim>\<open>error\<close> and \<^verbatim>\<open>usedFallback\<close>, the last one a boolean.
\<close>

lemma safeSupabaseQuery_shape:
  assumes "q \<noteq> Never"
  shows "\<exists>d e u. safeSupabaseQuery q fb =
           Some (Inr (JObj [(''data'', d), (''error'', e), (''usedFallback'', JBool u)]))"
proof (cases "awaitCall q")
  case None
  with assms show ?thesis by (cases q) (simp_all add: awaitCall_def)
next
  case (Some settled)
  show ?thesis
  proof (cases settled)
    case (Inl error)
    with Some show ?thesis by (auto simp: safeSupabaseQuery_def)
  next
    case (Inr result)
    show ?thesis
    proof (cases "inspectResult result (if fb = JUndefined then JNull else fb)")
      case (Inl thrown)
      with Some Inr show ?thesis by (auto simp: safeSupabaseQuery_def)
    next
      case inner: (Inr outcome)
      with inspectResult_shape obtain d e u
        where "outcome = JObj [(''data'', d), (''error'', e), (''usedFallback'', JBool u)]"
        by blast
      with Some Inr inner show ?thesis by (auto simp: safeSupabaseQuery_def)
    qed
  qed
qed

text \<open>
  Claim C5. \<^verbatim>\<open>safeSupabaseQuery(queryFn, fallback)\<close>: when the query resolves with a
  result whose \<^verbatim>\<open>error\<close> is truthy, the outcome is the object
  \<^verbatim>\<open>{data: fallback, error: result.error, usedFallback: true}\<close>; when it resolves with a result
  (not \<^verbatim>\<open>null\<close> or \<^verbatim>\<open>undefined\<close>) whose \<^verbatim>\<open>error\<close> is not truthy, the outcome is
  \<^verbatim>\<open>{data: result.data, error: null, usedFallback: false}\<close>; when the query function fails
  with \<open>x\<close>, the outcome is \<^verbatim>\<open>{data: fallback, error: x, usedFallback: true}\<close>. In no case is
  the returned promise rejected, and it is fulfilled whenever the query settles. The
  fallback is \<^verbatim>\<open>null\<close> when the argument is \<^verbatim>\<open>undefined\<close>.
\<close>

theorem safeSupabaseQuery_outcomes:
  fixes fb :: jsval
  defines "fallback \<equiv> (if fb = JUndefined then JNull else fb)"
  shows "(getProp result ''error'' = Inr err \<and> truthy err \<longrightarrow>
            safeSupabaseQuery (Settles d (Inr result)) fb =
              Some (Inr (JObj [(''data'', fallback), (''error'', err),
                               (''usedFallback'', JBool True)]))) \<and>
         (getProp result ''error'' = Inr err \<and> \<not> truthy err \<and> getProp result ''data'' = Inr payload \<longrightarrow>
            safeSupabaseQuery (Settles d (Inr result)) fb =
              Some (Inr (JObj [(''data'', payload), (''error'', JNull),
                               (''usedFallback'', JBool False)]))) \<and>
         (failure q = Some x \<longrightarrow>
            safeSupabaseQuery q fb =
              Some (Inr (JObj [(''data'', fallback), (''error'', x),
                               (''usedFallback'', JBool True)]))) \<and>
         safeSupabaseQuery q' fb \<noteq> Some (Inl x') \<and>
         (q' \<noteq> Never \<longrightarrow>
            (\<exists>d' e' u'. safeSupabaseQuery q' fb =
               Some (Inr (JObj [(''data'', d'), (''error'', e'), (''usedFallback'', JBool u')]))))"
proof (intro conjI impI)
  assume "getProp result ''error'' = Inr err \<and> truthy err"
  then show "safeSupabaseQuery (Settles d (Inr result)) fb =
      Some (Inr (JObj [(''data'', fallback), (''error'', err), (''usedFallback'', JBool True)]))"
    by (simp add: safeSupabaseQuery_def awaitCall_def inspectResult_def fallback_def)
next
  assume "getProp result ''error'' = Inr err \<and> \<not> truthy err \<and> getProp result ''data'' = Inr payload"
  then show "safeSupabaseQuery (Settles d (Inr result)) fb =
      Some (Inr (JObj [(''data'', payload), (''error'', JNull), (''usedFallback'', JBool False)]))"
    by (simp add: safeSupabaseQuery_def awaitCall_def inspectResult_def)
next
  assume "failure q = Some x"
  then show "safeSupabaseQuery q fb =
      Some (Inr (JObj [(''data'', fallback), (''error'', x), (''usedFallback'', JBool True)]))"
    by (cases q rule: failure.cases)
       (simp_all add: safeSupabaseQuery_def awaitCall_def fallback_def)
next
  show "safeSupabaseQuery q' fb \<noteq> Some (Inl x')"
    by (rule safeSupabaseQuery_fulfilled)
next
  assume "q' \<noteq> Never"
  then show "\<exists>d' e' u'. safeSupabaseQuery q' fb =
      Some (Inr (JObj [(''data'', d'), (''error'', e'), (''usedFallback'', JBool u')]))"
    by (rule safeSupabaseQuery_shape)
qed

text \<open>
  A result with an error indicator, a result without one, a rejected query with the
  fallback left out, and the fields of the three outcomes read back: the three objects
  differ in what \<^verbatim>\<open>data\<close>, \<^verbatim>\<open>error\<close> and \<^verbatim>\<open>usedFallback\<close> hold.
\<close>

theorem safeSupabaseQuery_outcomes_witness:
  "safeSupabaseQuery
     (Settles 40 (Inr (JObj [(''data'', JNull), (''error'', JObj [(''code'', JStr ''42P01'')])])))
     (JStr ''mock'')
     = Some (Inr (JObj [(''data'', JStr ''mock''), (''error'', JObj [(''code'', JStr ''42P01'')]),
                        (''usedFallback'', JBool True)])) \<and>
   safeSupabaseQuery
     (Settles 40 (Inr (JObj [(''data'', JStr ''rows''), (''error'', JNull)]))) (JStr ''mock'')
     = Some (Inr (JObj [(''data'', JStr ''rows''), (''error'', JNull),
                        (''usedFallback'', JBool False)])) \<and>
   safeSupabaseQuery (Settles 9 (Inl (JError ''TypeError'' ''Failed to fetch''))) JUndefined
     = Some (Inr (JObj [(''data'', JNull), (''error'', JError ''TypeError'' ''Failed to fetch''),
                        (''usedFallback'', JBool True)])) \<and>
   getProp (JObj [(''data'', JStr ''mock''), (''error'', JObj [(''code'', JStr ''42P01'')]),
                  (''usedFallback'', JBool True)]) ''usedFallback'' = Inr (JBool True) \<and>
   getProp (JObj [(''data'', JStr ''rows''), (''error'', JNull),
                  (''usedFallback'', JBool False)]) ''data'' = Inr (JStr ''rows'') \<and>
   getProp (JObj [(''data'', JStr ''rows''), (''error'', JNull),
                  (''usedFallback'', JBool False)]) ''error'' = Inr JNull \<and>
   getProp (JObj [(''data'', JStr ''rows''), (''error'', JNull),
                  (''usedFallback'', JBool False)]) ''usedFallback'' = Inr (JBool False) \<and>
   (\<exists>d' e' u'. safeSupabaseQuery (Settles 3 (Inr JNull)) (JStr ''mock'') =
      Some (Inr (JObj [(''data'', d'), (''error'', e'), (''usedFallback'', JBool u')])))"
  using safeSupabaseQuery_outcomes
          [where result = "JObj [(''data'', JNull), (''error'', JObj [(''code'', JStr ''42P01'')])]"
             and err = "JObj [(''code'', JStr ''42P01'')]" and d = 40 and fb = "JStr ''mock''"
             and q' = "Settles 3 (Inr JNull)"]
        safeSupabaseQuery_outcomes
          [where result = "JObj [(''data'', JStr ''rows''), (''error'', JNull)]"
             and err = JNull and payload = "JStr ''rows''" and d = 40 and fb = "JStr ''mock''"]
        safeSupabaseQuery_outcomes
          [where q = "Settles 9 (Inl (JError ''TypeError'' ''Failed to fetch''))"
             and x = "JError ''TypeError'' ''Failed to fetch''" and fb = JUndefined]
  by simp

section \<open>Properties of the filter pipeline\<close>

subsection \<open>The rating step\<close>

lemma fold_min_Min: "fold min rs (r::rat) = Min (set (r # rs))"
  using Min.set_eq_fold [of r rs] by simp

lemma ratingStep_Min:
  "rs \<noteq> [] \<Longrightarrow> ratingStep rs V = filter (ratingOk (Min (set rs))) V"
  by (cases rs) (simp_all add: ratingStep_def fold_min_Min del: set_simps)

lemma ratingOk_iff:
  "ratingOk m = (\<lambda>v. \<exists>r. google_rating v = Some r \<and> r \<noteq> 0 \<and> m \<le> r)"
  by (rule ext) (auto simp: ratingOk_def split: option.splits)

text \<open>
  A selection made with the check boxes stays among the offered thresholds, and its
  minimum is positive.
\<close>

lemma toggleRating_offered:
  "rating \<in> set ratingOptions \<Longrightarrow> set prev \<subseteq> set ratingOptions \<Longrightarrow>
     set (toggleRating rating prev) \<subseteq> set ratingOptions"
  by (auto simp: toggleRating_def)

lemma offered_ratings_positive:
  assumes "rs \<noteq> []" and "set rs \<subseteq> set ratingOptions"
  shows "0 < Min (set rs)"
proof -
  have "Min (set rs) \<in> set rs" using assms(1) by (intro Min_in) simp_all
  with assms(2) have "Min (set rs) \<in> set ratingOptions" by blast
  then show ?thesis by (auto simp: ratingOptions_def)
qed

text \<open>
  Claim C6. For a non-empty selection of thresholds the rating step gives the same list
  as for the single threshold that is their minimum. It keeps the venues whose rating is
  present, not 0 and at least that minimum; when the minimum is positive, as it is for
  every selection of the thresholds the page offers (\<open>offered_ratings_positive\<close>), these
  are the venues with a rating at least the minimum.
\<close>

theorem ratingStep_minimum:
  assumes "rs \<noteq> []"
  shows "ratingStep rs V = ratingStep [Min (set rs)] V \<and>
         ratingStep rs V =
           filter (\<lambda>v. \<exists>r. google_rating v = Some r \<and> r \<noteq> 0 \<and> Min (set rs) \<le> r) V \<and>
         (0 < Min (set rs) \<longrightarrow>
            ratingStep rs V = filter (\<lambda>v. \<exists>r. google_rating v = Some r \<and> Min (set rs) \<le> r) V)"
proof (intro conjI impI)
  show "ratingStep rs V = ratingStep [Min (set rs)] V"
    using assms by (simp add: ratingStep_Min)
  show all: "ratingStep rs V =
      filter (\<lambda>v. \<exists>r. google_rating v = Some r \<and> r \<noteq> 0 \<and> Min (set rs) \<le> r) V"
    using assms by (simp add: ratingStep_Min ratingOk_iff)
  assume pos: "0 < Min (set rs)"
  have eq: "(\<lambda>v. \<exists>r. google_rating v = Some r \<and> r \<noteq> 0 \<and> Min (set rs) \<le> r) =
            (\<lambda>v. \<exists>r. google_rating v = Some r \<and> Min (set rs) \<le> r)"
    using pos by (intro ext) auto
  show "ratingStep rs V = filter (\<lambda>v. \<exists>r. google_rating v = Some r \<and> Min (set rs) \<le> r) V"
    using all by (simp only: eq)
qed

text \<open>
  Selecting 3 and 4.5 acts as selecting 3: of the ratings 4.7, 3.2 and 2.9 the first two
  stay.
\<close>

theorem ratingStep_minimum_witness:
  "[3, 9 / 2] \<noteq> ([] :: rat list) \<and> Min (set [3, 9 / 2 :: rat]) = 3 \<and>
   ratingStep [3, 9 / 2]
     [\<lparr>name = ''A'', features = None, opening_hours = None, google_rating = Some (47 / 10)\<rparr>,
      \<lparr>name = ''B'', features = None, opening_hours = None, google_rating = Some (29 / 10)\<rparr>,
      \<lparr>name = ''C'', features = None, opening_hours = None, google_rating = Some (16 / 5)\<rparr>]
   = ratingStep [3]
     [\<lparr>name = ''A'', features = None, opening_hours = None, google_rating = Some (47 / 10)\<rparr>,
      \<lparr>name = ''B'', features = None, opening_hours = None, google_rating = Some (29 / 10)\<rparr>,
      \<lparr>name = ''C'', features = None, opening_hours = None, google_rating = Some (16 / 5)\<rparr>] \<and>
   ratingStep [3, 9 / 2]
     [\<lparr>name = ''A'', features = None, opening_hours = None, google_rating = Some (47 / 10)\<rparr>,
      \<lparr>name = ''B'', features = None, opening_hours = None, google_rating = Some (29 / 10)\<rparr>,
      \<lparr>name = ''C'', features = None, opening_hours = None, google_rating = Some (16 / 5)\<rparr>]
   = filter (\<lambda>v. \<exists>r. google_rating v = Some r \<and> 3 \<le> r)
     [\<lparr>name = ''A'', features = None, opening_hours = None, google_rating = Some (47 / 10)\<rparr>,
      \<lparr>name = ''B'', features = None, opening_hours = None, google_rating = Some (29 / 10)\<rparr>,
      \<lparr>name = ''C'', features = None, opening_hours = None, google_rating = Some (16 / 5)\<rparr>]"
proof -
  have ne: "[3, 9 / 2] \<noteq> ([] :: rat list)" by simp
  have m: "Min (set [3, 9 / 2 :: rat]) = 3" by simp
  have pos: "(0::rat) < 3" by simp
  note t = ratingStep_minimum [OF ne, unfolded m]
  from ne m pos t [THEN conjunct1] t [THEN conjunct2, THEN conjunct2, THEN mp, OF pos]
  show ?thesis by (simp only: simp_thms)
qed

text \<open>
  Claim C10. For a non-empty selection, a venue whose rating is absent (\<^verbatim>\<open>null\<close>) or 0 is
  not in the output of the rating step, whatever the thresholds are.
\<close>

theorem ratingStep_excludes_unrated:
  assumes "rs \<noteq> []" and "google_rating v = None \<or> google_rating v = Some 0"
  shows "v \<notin> set (ratingStep rs V)"
  using assms by (auto simp: ratingStep_Min ratingOk_def)

text \<open>With the threshold \<open>-1\<close>, below every rating, a venue rated 0 is still left out.\<close>

theorem ratingStep_excludes_unrated_witness:
  "[- 1] \<noteq> ([] :: rat list) \<and>
   google_rating \<lparr>name = ''Z'', features = None, opening_hours = None, google_rating = Some 0\<rparr> = Some 0 \<and>
   \<lparr>name = ''Z'', features = None, opening_hours = None, google_rating = Some 0\<rparr>
     \<notin> set (ratingStep [- 1]
          [\<lparr>name = ''Z'', features = None, opening_hours = None, google_rating = Some 0\<rparr>]) \<and>
   \<lparr>name = ''N'', features = None, opening_hours = None, google_rating = None\<rparr>
     \<notin> set (ratingStep [3]
          [\<lparr>name = ''N'', features = None, opening_hours = None, google_rating = None\<rparr>])"
  using ratingStep_excludes_unrated [of "[- 1]"
     "\<lparr>name = ''Z'', features = None, opening_hours = None, google_rating = Some 0\<rparr>"
     "[\<lparr>name = ''Z'', features = None, opening_hours = None, google_rating = Some 0\<rparr>]"]
        ratingStep_excludes_unrated [of "[3]"
     "\<lparr>name = ''N'', features = None, opening_hours = None, google_rating = None\<rparr>"
     "[\<lparr>name = ''N'', features = None, opening_hours = None, google_rating = None\<rparr>]"]
  by simp

subsection \<open>The feature step\<close>

lemma str_includes_sublist: "str_includes hay needle \<longleftrightarrow> sublist needle hay"
  by (induction hay) (auto simp: sublist_Cons_right)

lemma hasFeature_iff:
  "hasFeature L v s \<longleftrightarrow>
     (\<exists>tags. features v = Some tags \<and> (\<exists>tag\<in>set tags. caseInsensitiveSubstring L s tag))"
  by (auto simp: hasFeature_def caseInsensitiveSubstring_def list_ex_iff str_includes_sublist
           split: option.splits)

lemma featureStep_filter:
  "S \<noteq> [] \<Longrightarrow> featureStep L S V = filter (\<lambda>v. \<forall>s\<in>set S. hasFeature L v s) V"
  by (simp add: featureStep_def list_all_iff)

text \<open>
  On ASCII data the parameter can be made concrete: a lowering function that does on
  ASCII strings what the host's does (\<^verbatim>\<open>A\<close> to \<^verbatim>\<open>Z\<close> onto \<^verbatim>\<open>a\<close> to \<^verbatim>\<open>z\<close>) filters
  ASCII selections against ASCII tags as \<open>lowerAscii\<close> does, so that \<^verbatim>\<open>soft\<close> matches
  \<^verbatim>\<open>Soft Play\<close>.
\<close>

lemma hasFeature_ascii:
  assumes L: "\<And>x. isAscii x \<Longrightarrow> L x = lowerAscii x"
    and s: "isAscii s"
    and tags: "\<And>tags. features v = Some tags \<Longrightarrow> list_all isAscii tags"
  shows "hasFeature L v s = hasFeature lowerAscii v s"
proof (cases "features v")
  case None
  then show ?thesis by (simp add: hasFeature_def)
next
  case (Some ts)
  with tags have "\<forall>f\<in>set ts. isAscii f" by (simp add: list_all_iff)
  with L s have "\<forall>f\<in>set ts. str_includes (L f) (L s) = str_includes (lowerAscii f) (lowerAscii s)"
    by simp
  with Some show ?thesis by (simp add: hasFeature_def list_ex_iff)
qed

lemma featureStep_ascii:
  assumes L: "\<And>x. isAscii x \<Longrightarrow> L x = lowerAscii x"
    and S: "list_all isAscii S"
    and V: "\<And>v tags. v \<in> set V \<Longrightarrow> features v = Some tags \<Longrightarrow> list_all isAscii tags"
  shows "featureStep L S V = featureStep lowerAscii S V"
proof -
  have "list_all (hasFeature L v) S = list_all (hasFeature lowerAscii v) S" if "v \<in> set V" for v
  proof -
    have "hasFeature L v s = hasFeature lowerAscii v s" if "s \<in> set S" for s
    proof (rule hasFeature_ascii [OF L])
      from S that show "isAscii s" by (simp add: list_all_iff)
    next
      fix tags assume "features v = Some tags"
      with V \<open>v \<in> set V\<close> show "list_all isAscii tags" by blast
    qed
    then show ?thesis by (simp add: list_all_iff)
  qed
  then have "filter (\<lambda>v. list_all (hasFeature L v) S) V =
             filter (\<lambda>v. list_all (hasFeature lowerAscii v) S) V"
    by (intro filter_cong) simp_all
  then show ?thesis by (simp add: featureStep_def)
qed

lemma featureStep_ascii_example:
  "featureStep lowerAscii [''soft'']
     [\<lparr>name = ''A'', features = Some [''Soft Play''], opening_hours = None, google_rating = None\<rparr>,
      \<lparr>name = ''B'', features = Some [''Ball Pit''], opening_hours = None, google_rating = None\<rparr>]
   = [\<lparr>name = ''A'', features = Some [''Soft Play''], opening_hours = None, google_rating = None\<rparr>]"
  by (simp add: featureStep_def hasFeature_def lowerAscii_def lowerChar_def)

text \<open>
  Claim C7. For a non-empty selection \<open>S\<close> the feature step keeps, in order, exactly the
  venues \<open>v\<close> of \<open>V\<close> that have a feature list in which, for every \<open>s\<close> of \<open>S\<close>, some tag
  contains \<open>s\<close> as a substring once both are put in lower case by the host's
  \<^verbatim>\<open>toLowerCase\<close>, the parameter \<open>L\<close>. A venue with no feature list is left out. The case of
  the selection does not matter: two selections with the same lower-case forms keep the
  same venues.
\<close>

theorem featureStep_exact:
  assumes "S \<noteq> []"
  shows "featureStep L S V =
           filter (\<lambda>v. \<forall>s\<in>set S. \<exists>tags. features v = Some tags \<and>
                      (\<exists>tag\<in>set tags. caseInsensitiveSubstring L s tag)) V \<and>
         set (featureStep L S V) =
           {v \<in> set V. \<forall>s\<in>set S. \<exists>tags. features v = Some tags \<and>
                      (\<exists>tag\<in>set tags. caseInsensitiveSubstring L s tag)} \<and>
         (\<forall>v. features v = None \<longrightarrow> v \<notin> set (featureStep L S V)) \<and>
         (\<forall>S'. map L S' = map L S \<longrightarrow> featureStep L S' V = featureStep L S V)"
proof (intro conjI allI impI)
  show exact: "featureStep L S V =
      filter (\<lambda>v. \<forall>s\<in>set S. \<exists>tags. features v = Some tags \<and>
                 (\<exists>tag\<in>set tags. caseInsensitiveSubstring L s tag)) V"
    using assms by (simp add: featureStep_filter hasFeature_iff)
  show "set (featureStep L S V) =
      {v \<in> set V. \<forall>s\<in>set S. \<exists>tags. features v = Some tags \<and>
                 (\<exists>tag\<in>set tags. caseInsensitiveSubstring L s tag)}"
    unfolding exact by (rule set_filter)
next
  fix v :: playground
  assume none: "features v = None"
  from assms obtain s where "s \<in> set S" by (cases S) auto
  moreover from none have "\<not> hasFeature L v s" by (simp add: hasFeature_def)
  ultimately show "v \<notin> set (featureStep L S V)"
    using assms by (auto simp: featureStep_filter)
next
  fix S' assume same: "map L S' = map L S"
  with assms have ne: "S' \<noteq> []" by auto
  define P where
    "P = (\<lambda>(v::playground) x. \<exists>tags. features v = Some tags \<and> (\<exists>tag\<in>set tags. sublist x (L tag)))"
  have key: "(\<forall>s\<in>set T. hasFeature L v s) \<longleftrightarrow> (\<forall>x\<in>set (map L T). P v x)" for T v
    by (simp add: hasFeature_iff caseInsensitiveSubstring_def P_def)
  have "(\<forall>s\<in>set S'. hasFeature L v s) \<longleftrightarrow> (\<forall>s\<in>set S. hasFeature L v s)" for v
    by (simp only: key same)
  with assms ne show "featureStep L S' V = featureStep L S V"
    by (simp add: featureStep_filter)
qed

text \<open>
  The check box \<^verbatim>\<open>Caf\<close> with an acute \<^verbatim>\<open>e\<close>, as the page offers it, against a tag in capitals
  (\<^verbatim>\<open>CAF\<close> and a capital acute \<^verbatim>\<open>E\<close>, bytes \<open>C3 89\<close>), the same tag as the page writes it,
  a venue with no feature list and a venue with another tag: the first two are kept.
\<close>

lemma lowerLatin1_examples:
  "lowerLatin1 (''Caf'' @ [CHR 0xC3, CHR 0xA9]) = ''caf'' @ [CHR 0xC3, CHR 0xA9]"
  "lowerLatin1 (''CAF'' @ [CHR 0xC3, CHR 0x89]) = ''caf'' @ [CHR 0xC3, CHR 0xA9]"
  "lowerLatin1 ''Soft Play'' = ''soft play''"
  by code_simp+

theorem featureStep_exact_witness:
  "[''Caf'' @ [CHR 0xC3, CHR 0xA9]] \<noteq> [] \<and>
   featureStep lowerLatin1 [''Caf'' @ [CHR 0xC3, CHR 0xA9]]
     [\<lparr>name = ''A'', features = Some [''CAF'' @ [CHR 0xC3, CHR 0x89]], opening_hours = None,
        google_rating = None\<rparr>,
      \<lparr>name = ''B'', features = Some [''Soft Play'', ''Caf'' @ [CHR 0xC3, CHR 0xA9]],
        opening_hours = None, google_rating = None\<rparr>,
      \<lparr>name = ''C'', features = None, opening_hours = None, google_rating = None\<rparr>,
      \<lparr>name = ''D'', features = Some [''Soft Play''], opening_hours = None, google_rating = None\<rparr>]
   = [\<lparr>name = ''A'', features = Some [''CAF'' @ [CHR 0xC3, CHR 0x89]], opening_hours = None,
        google_rating = None\<rparr>,
      \<lparr>name = ''B'', features = Some [''Soft Play'', ''Caf'' @ [CHR 0xC3, CHR 0xA9]],
        opening_hours = None, google_rating = None\<rparr>] \<and>
   featureStep lowerLatin1 [''CAF'' @ [CHR 0xC3, CHR 0x89]]
     [\<lparr>name = ''A'', features = Some [''CAF'' @ [CHR 0xC3, CHR 0x89]], opening_hours = None,
        google_rating = None\<rparr>,
      \<lparr>name = ''B'', features = Some [''Soft Play'', ''Caf'' @ [CHR 0xC3, CHR 0xA9]],
        opening_hours = None, google_rating = None\<rparr>,
      \<lparr>name = ''C'', features = None, opening_hours = None, google_rating = None\<rparr>,
      \<lparr>name = ''D'', features = Some [''Soft Play''], opening_hours = None, google_rating = None\<rparr>]
   = featureStep lowerLatin1 [''Caf'' @ [CHR 0xC3, CHR 0xA9]]
     [\<lparr>name = ''A'', features = Some [''CAF'' @ [CHR 0xC3, CHR 0x89]], opening_hours = None,
        google_rating = None\<rparr>,
      \<lparr>name = ''B'', features = Some [''Soft Play'', ''Caf'' @ [CHR 0xC3, CHR 0xA9]],
        opening_hours = None, google_rating = None\<rparr>,
      \<lparr>name = ''C'', features = None, opening_hours = None, google_rating = None\<rparr>,
      \<lparr>name = ''D'', features = Some [''Soft Play''], opening_hours = None, google_rating = None\<rparr>]"
proof -
  let ?V = "[\<lparr>name = ''A'', features = Some [''CAF'' @ [CHR 0xC3, CHR 0x89]], opening_hours = None,
        google_rating = None\<rparr>,
      \<lparr>name = ''B'', features = Some [''Soft Play'', ''Caf'' @ [CHR 0xC3, CHR 0xA9]],
        opening_hours = None, google_rating = None\<rparr>,
      \<lparr>name = ''C'', features = None, opening_hours = None, google_rating = None\<rparr>,
      \<lparr>name = ''D'', features = Some [''Soft Play''], opening_hours = None, google_rating = None\<rparr>]"
  have ne: "[''Caf'' @ [CHR 0xC3, CHR 0xA9]] \<noteq> []" by simp
  have same: "map lowerLatin1 [''CAF'' @ [CHR 0xC3, CHR 0x89]] =
              map lowerLatin1 [''Caf'' @ [CHR 0xC3, CHR 0xA9]]"
    using lowerLatin1_examples by (simp del: lowerLatin1.simps)
  note t = featureStep_exact [OF ne, of lowerLatin1 ?V]
  have kept: "featureStep lowerLatin1 [''Caf'' @ [CHR 0xC3, CHR 0xA9]] ?V = [\<lparr>name = ''A'', features = Some [''CAF'' @ [CHR 0xC3, CHR 0x89]], opening_hours = None,
        google_rating = None\<rparr>,
      \<lparr>name = ''B'', features = Some [''Soft Play'', ''Caf'' @ [CHR 0xC3, CHR 0xA9]],
        opening_hours = None, google_rating = None\<rparr>]"
    using t [THEN conjunct1] lowerLatin1_examples
    by (simp add: caseInsensitiveSubstring_def str_includes_sublist [symmetric] del: lowerLatin1.simps)
  have inv: "featureStep lowerLatin1 [''CAF'' @ [CHR 0xC3, CHR 0x89]] ?V =
             featureStep lowerLatin1 [''Caf'' @ [CHR 0xC3, CHR 0xA9]] ?V"
    by (rule t [THEN conjunct2, THEN conjunct2, THEN conjunct2, THEN spec, THEN mp, OF same])
  from ne kept inv show ?thesis by (simp only: simp_thms)
qed

subsection \<open>The open-late category\<close>

lemma digitChar_is_digit: "digitChar n \<in> set ''0123456789''"
proof -
  have "n mod 10 < length ''0123456789''" by simp
  then show ?thesis unfolding digitChar_def by (rule nth_mem)
qed

lemma isDigit_digitChar: "isDigit (digitChar n)"
  using digitChar_is_digit [of n] by (auto simp: isDigit_def)

lemma below_ten: "(k::nat) < 10 \<Longrightarrow> k \<in> {0, 1, 2, 3, 4, 5, 6, 7, 8, 9}"
  by (simp only: insert_iff empty_iff) arith

lemma digitVal_digitChar: "digitVal (digitChar n) = n mod 10"
proof -
  have "n mod 10 < 10" by simp
  then have "n mod 10 \<in> {0, 1, 2, 3, 4, 5, 6, 7, 8, 9}" by (rule below_ten)
  then show ?thesis
    unfolding digitChar_def by (auto simp: digitVal_def)
qed

lemma showNat_nonempty: "showNat n \<noteq> []"
  by (subst showNat.simps) simp

lemma showNat_digits: "list_all isDigit (showNat n)"
  by (induction n rule: showNat.induct) (subst showNat.simps, simp add: isDigit_digitChar)

text \<open>Reading back what \<open>showNat\<close> wrote gives the number.\<close>

lemma decimal_showNat: "decimal (showNat n) = n"
proof (induction n rule: showNat.induct)
  case (1 n)
  show ?case
  proof (cases "n < 10")
    case True
    then show ?thesis by (subst showNat.simps) (simp add: digitVal_digitChar)
  next
    case False
    with 1 show ?thesis by (subst showNat.simps) (simp add: digitVal_digitChar)
  qed
qed

lemma twoDigits_nonempty: "twoDigits n \<noteq> []"
  by (simp add: twoDigits_def showNat_nonempty)

lemma isDigit_zero: "isDigit CHR ''0''"
  by (simp add: isDigit_def)

lemma twoDigits_digits: "list_all isDigit (twoDigits n)"
  by (simp add: twoDigits_def showNat_digits isDigit_zero)

lemma digitVal_zero: "digitVal CHR ''0'' = 0"
  by (simp add: digitVal_def)

lemma decimal_twoDigits: "decimal (twoDigits n) = n"
  by (simp add: twoDigits_def decimal_showNat digitVal_zero)

lemma isDigit_plain: "isDigit c \<Longrightarrow> c \<noteq> CHR ''-'' \<and> c \<noteq> CHR '':'' \<and> \<not> isSpace c"
  by (auto simp: isDigit_def isSpace_def)

lemma split_on_absent: "sep \<notin> set s \<Longrightarrow> split_on sep s = [s]"
  by (induction s) auto

lemma split_on_first:
  "sep \<notin> set a \<Longrightarrow> split_on sep (a @ sep # b) = a # split_on sep b"
  by (induction a) (auto split: list.splits)

lemma dropWhile_none: "\<forall>c\<in>set s. \<not> P c \<Longrightarrow> dropWhile P s = s"
  by (cases s) auto

lemma trim_plain: "\<forall>c\<in>set s. \<not> isSpace c \<Longrightarrow> trim s = s"
  by (simp add: trim_def dropWhile_none)

lemma hourText_props:
  "hourText padded t \<noteq> [] \<and> list_all isDigit (hourText padded t) \<and>
   decimal (hourText padded t) = hour t"
  by (simp add: hourText_def showNat_nonempty showNat_digits decimal_showNat
        twoDigits_nonempty twoDigits_digits decimal_twoDigits)


lemma showTime_plain:
  "c \<in> set (showTime padded t) \<Longrightarrow> c \<noteq> CHR ''-'' \<and> \<not> isSpace c"
proof -
  assume "c \<in> set (showTime padded t)"
  then have "isDigit c \<or> c = CHR '':''"
    using hourText_props [of padded t] twoDigits_digits [of "minute t"]
    by (auto simp: showTime_def list_all_iff)
  then show ?thesis
    using isDigit_plain [of c] by (auto simp: isSpace_def)
qed

lemma showTime_nonempty: "showTime padded t \<noteq> []"
  by (simp add: showTime_def)

lemma toNumber_digits:
  assumes "s \<noteq> []" and "list_all isDigit s"
  shows "toNumber s = Some (decimal s)"
proof -
  from assms have "trim s = s"
    by (intro trim_plain) (auto simp: list_all_iff dest: isDigit_plain)
  with assms show ?thesis by (simp add: toNumber_def)
qed

lemma split_showTime:
  "split_on CHR '':'' (showTime padded t) = [hourText padded t, twoDigits (minute t)]"
proof -
  have h: "CHR '':'' \<notin> set (hourText padded t)"
    using hourText_props [of padded t] by (auto simp: list_all_iff dest: isDigit_plain)
  have m: "CHR '':'' \<notin> set (twoDigits (minute t))"
    using twoDigits_digits [of "minute t"] by (auto simp: list_all_iff dest: isDigit_plain)
  have "showTime padded t = hourText padded t @ CHR '':'' # twoDigits (minute t)"
    by (simp add: showTime_def)
  then show ?thesis
    using split_on_first [OF h, of "twoDigits (minute t)"] split_on_absent [OF m] by simp
qed

text \<open>
  On an entry written in the format, the code's parse finds the closing hour: the entry
  passes exactly when the day is open and closes at hour 18 or later.
\<close>

lemma closesLate_showDay:
  "closesLate (showDay padded h) \<longleftrightarrow>
     (case h of ClosedAllDay \<Rightarrow> False | OpenBetween opens closes \<Rightarrow> 18 \<le> hour closes)"
proof (cases h)
  case ClosedAllDay
  then show ?thesis by (simp add: closesLate_def)
next
  case (OpenBetween opens closes)
  have o: "CHR ''-'' \<notin> set (showTime padded opens)" and c: "CHR ''-'' \<notin> set (showTime padded closes)"
    using showTime_plain by blast+
  have sp: "split_on CHR ''-'' (showTime padded opens @ CHR ''-'' # showTime padded closes)
              = [showTime padded opens, showTime padded closes]"
    using split_on_first [OF o, of "showTime padded closes"] split_on_absent [OF c] by simp
  have tr: "trim (showTime padded closes) = showTime padded closes"
    using showTime_plain by (intro trim_plain) blast
  have num: "toNumber (hourText padded closes) = Some (hour closes)"
    using hourText_props [of padded closes] toNumber_digits by simp
  have "closesLate (Some (showTime padded opens @ CHR ''-'' # showTime padded closes))
          = (18 \<le> hour closes)"
    by (simp add: closesLate_def sp tr num split_showTime showTime_nonempty)
  with OpenBetween show ?thesis by simp
qed

lemma late_is_no_other_category:
  "''late'' \<noteq> ''toddler''" "''late'' \<noteq> ''party''" "''late'' \<noteq> ''cafe''" "''late'' \<noteq> ''parking''"
  by simp_all

lemma categoryMatch_late:
  "categoryMatch L ''late'' v =
     (case opening_hours v of None \<Rightarrow> False | Some hours \<Rightarrow> list_ex closesLate (map snd hours))"
  unfolding categoryMatch_def Let_def
  by (simp only: late_is_no_other_category if_False if_True refl)

lemma late_showHours:
  "list_ex closesLate (map snd (showHours padded schedule)) = closesAtOrAfter18 schedule"
  by (induction schedule)
     (simp_all add: showHours_def closesAtOrAfter18_def closesLate_showDay split_beta)

lemma categoryStep_member:
  "v \<in> set (categoryStep L category V) \<longleftrightarrow>
     v \<in> set V \<and> (category \<noteq> [] \<longrightarrow> categoryMatch L category v)"
  by (auto simp: categoryStep_def)

lemma categoryStepMock_eq: "categoryStepMock L category V = categoryStep L category V"
  by (cases V) (simp_all add: categoryStep_def categoryStepMock_def)

lemma open_late_without_hours:
  "opening_hours v = None \<Longrightarrow> v \<notin> set (categoryStep L ''late'' V)"
  by (simp add: categoryStep_member categoryMatch_late)

text \<open>
  Claim C8. A venue whose opening hours are written in the \<^verbatim>\<open>HH:MM-HH:MM\<close> format passes
  the \<^verbatim>\<open>late\<close> category filter, in the live path and in the mock path, if and only if some
  day of its schedule has a closing hour of 18 or more.
\<close>

theorem open_late_filter:
  assumes "opening_hours v = Some (showHours padded schedule)"
  shows "(v \<in> set (categoryStep L ''late'' V) \<longleftrightarrow> v \<in> set V \<and> closesAtOrAfter18 schedule) \<and>
         (v \<in> set (categoryStepMock L ''late'' V) \<longleftrightarrow> v \<in> set V \<and> closesAtOrAfter18 schedule)"
  using assms
  by (simp add: categoryStepMock_eq categoryStep_member categoryMatch_late late_showHours)

text \<open>
  The scenario of the specification: \<^verbatim>\<open>{"Friday": "9:30-18:30"}\<close> is included (18 \<open>\<ge>\<close> 18)
  and \<^verbatim>\<open>{"Friday": "9:30-17:30"}\<close> is excluded.
\<close>

theorem open_late_filter_witness:
  "\<lparr>name = ''J'', features = None, opening_hours = Some [(''Friday'', Some ''9:30-18:30'')],
      google_rating = None\<rparr>
     \<in> set (categoryStep lowerLatin1 ''late''
          [\<lparr>name = ''J'', features = None, opening_hours = Some [(''Friday'', Some ''9:30-18:30'')],
             google_rating = None\<rparr>]) \<and>
   \<lparr>name = ''K'', features = None, opening_hours = Some [(''Friday'', Some ''9:30-17:30'')],
      google_rating = None\<rparr>
     \<notin> set (categoryStep lowerLatin1 ''late''
          [\<lparr>name = ''K'', features = None, opening_hours = Some [(''Friday'', Some ''9:30-17:30'')],
             google_rating = None\<rparr>])"
proof -
  have 18: "showHours False [(''Friday'', OpenBetween \<lparr>hour = 9, minute = 30\<rparr> \<lparr>hour = 18, minute = 30\<rparr>)]
              = [(''Friday'', Some ''9:30-18:30'')]"
    by (simp add: showHours_def showTime_def hourText_def twoDigits_def showNat.simps digitChar_def)
  have 17: "showHours False [(''Friday'', OpenBetween \<lparr>hour = 9, minute = 30\<rparr> \<lparr>hour = 17, minute = 30\<rparr>)]
              = [(''Friday'', Some ''9:30-17:30'')]"
    by (simp add: showHours_def showTime_def hourText_def twoDigits_def showNat.simps digitChar_def)
  show ?thesis
    using open_late_filter
            [where v = "\<lparr>name = ''J'', features = None,
                   opening_hours = Some [(''Friday'', Some ''9:30-18:30'')], google_rating = None\<rparr>"
               and padded = False
               and schedule = "[(''Friday'', OpenBetween \<lparr>hour = 9, minute = 30\<rparr> \<lparr>hour = 18, minute = 30\<rparr>)]"
               and L = lowerLatin1
               and V = "[\<lparr>name = ''J'', features = None,
                    opening_hours = Some [(''Friday'', Some ''9:30-18:30'')], google_rating = None\<rparr>]"]
          open_late_filter
            [where v = "\<lparr>name = ''K'', features = None,
                   opening_hours = Some [(''Friday'', Some ''9:30-17:30'')], google_rating = None\<rparr>"
               and padded = False
               and schedule = "[(''Friday'', OpenBetween \<lparr>hour = 9, minute = 30\<rparr> \<lparr>hour = 17, minute = 30\<rparr>)]"
               and L = lowerLatin1
               and V = "[\<lparr>name = ''K'', features = None,
                    opening_hours = Some [(''Friday'', Some ''9:30-17:30'')], google_rating = None\<rparr>]"]
    by (simp add: 18 17 closesAtOrAfter18_def)
qed

end
